theory Spec2Isabelle
  imports Complex_Main
begin

section \<open>Miller eXtended Harmonic (MXH) local geometry\<close>

text \<open>
  A shallow embedding of \<^verbatim>\<open>pyrokinetics/local_geometry/mxh.py\<close>, class
  \<^verbatim>\<open>LocalGeometryMXH\<close>.

  Conventions of the embedding.
  \<^item> A numpy float is a \<open>real\<close>; a one-dimensional numpy array is a \<open>real list\<close>, a
    two-dimensional one a list of rows. Rounding is not modelled.
  \<^item> The object \<^verbatim>\<open>self\<close> is a record; a method that assigns to an attribute
    returns the updated record.
  \<^item> A Python exception is a value \<open>Inl e\<close> of the result.
  \<^item> Where IEEE arithmetic would produce \<^verbatim>\<open>inf\<close> or \<^verbatim>\<open>nan\<close> (a division by
    zero, \<^verbatim>\<open>arcsin\<close> or \<^verbatim>\<open>arccos\<close> outside \<open>[-1, 1]\<close>) numpy warns and goes on with
    that value. The reals have no such value, so the model stops there with
    \<open>Inl NotFinite\<close>: it says nothing about what the program does afterwards.
\<close>

subsection \<open>Errors and the object state\<close>

datatype error =
    ValueError string
  | IndexError
  | Exception string
  | NotFinite

text \<open>The attributes of \<^verbatim>\<open>LocalGeometryMXH\<close> that the methods of the file read or write.\<close>

record local_geometry_mxh =
  r_minor :: real
  a_minor :: real
  Rmaj :: real
  Z0 :: real
  rho :: real
  kappa :: real
  s_kappa :: real
  shift :: real
  dZ0dr :: real
  cn :: "real list"
  sn :: "real list"
  dcndr :: "real list"
  dsndr :: "real list"
  theta :: "real list"
  theta_eq :: "real list"
  thetaR :: "real list"
  dthetaR_dtheta :: "real list"
  dthetaR_dr :: "real list"
  R :: "real list"
  Z :: "real list"

text \<open>\<^verbatim>\<open>n_moments\<close> is the constant property 4; \<^verbatim>\<open>self.n\<close> is
  \<^verbatim>\<open>np.linspace(0, n_moments - 1, n_moments)\<close>, the harmonic numbers 0, 1, 2, 3.\<close>

definition n_moments :: nat where
  "n_moments = 4"

definition n_arr :: "real list" where
  "n_arr = map real [0..<n_moments]"

subsection \<open>The numpy operations the file uses\<close>

text \<open>\<^verbatim>\<open>np.isclose(a, b, rtol, atol)\<close> on finite values is
  \<^verbatim>\<open>absolute(a - b) <= (atol + rtol * absolute(b))\<close>, with the defaults
  \<^verbatim>\<open>rtol=1e-05\<close> and \<^verbatim>\<open>atol=1e-08\<close>.\<close>

definition isclose_rtol :: real where
  "isclose_rtol = 1 / 10 ^ 5"

definition isclose_atol :: real where
  "isclose_atol = 1 / 10 ^ 8"

definition np_isclose :: "real \<Rightarrow> real \<Rightarrow> real \<Rightarrow> real \<Rightarrow> bool" where
  "np_isclose a b rtol atol \<longleftrightarrow> \<bar>a - b\<bar> \<le> atol + rtol * \<bar>b\<bar>"

text \<open>\<^verbatim>\<open>np.argmax\<close> of a non-empty array: the first index of its largest element.\<close>

fun argmax_from :: "real list \<Rightarrow> nat \<Rightarrow> real \<Rightarrow> nat \<Rightarrow> nat" where
  "argmax_from [] i best besti = besti"
| "argmax_from (v # vs) i best besti =
     (if best < v then argmax_from vs (Suc i) v i else argmax_from vs (Suc i) best besti)"

definition np_argmax :: "real list \<Rightarrow> nat" where
  "np_argmax vs = (case vs of [] \<Rightarrow> 0 | v # rest \<Rightarrow> argmax_from rest 1 v 0)"

text \<open>\<^verbatim>\<open>np.arcsin\<close> and \<^verbatim>\<open>np.arccos\<close> of an array; outside \<open>[-1, 1]\<close> numpy yields
  \<^verbatim>\<open>nan\<close>.\<close>

definition np_arcsin :: "real list \<Rightarrow> error + real list" where
  "np_arcsin vs =
     (if list_all (\<lambda>v. - 1 \<le> v \<and> v \<le> 1) vs then Inr (map arcsin vs) else Inl NotFinite)"

definition np_arccos :: "real list \<Rightarrow> error + real list" where
  "np_arccos vs =
     (if list_all (\<lambda>v. - 1 \<le> v \<and> v \<le> 1) vs then Inr (map arccos vs) else Inl NotFinite)"

text \<open>Broadcasting a one-dimensional array against an axis of length \<open>k\<close>: an array of
  that length is taken as it is, an array of length 1 is repeated, any other raises.\<close>

definition broadcast_to :: "nat \<Rightarrow> real list \<Rightarrow> error + real list" where
  "broadcast_to k vs =
     (if length vs = k then Inr vs
      else if length vs = 1 then Inr (replicate k (hd vs))
      else Inl (ValueError ''operands could not be broadcast together''))"

text \<open>\<^verbatim>\<open>np.outer(a, b)\<close>: row \<open>i\<close> is \<open>a[i] * b\<close>.\<close>

definition np_outer :: "real list \<Rightarrow> real list \<Rightarrow> real list list" where
  "np_outer a b = map (\<lambda>u. map (\<lambda>v. u * v) b) a"

subsection \<open>\<^verbatim>\<open>_set_shape_coefficients\<close>, lines 164 to 202: the angle mapping\<close>

text \<open>Lines 172 to 180: the normalised height, set to exactly 1 or -1 where
  \<^verbatim>\<open>np.isclose\<close> with its default tolerances says it is close to them.\<close>

definition normalised_height :: "local_geometry_mxh \<Rightarrow> real \<Rightarrow> real \<Rightarrow> real list \<Rightarrow> real list" where
  "normalised_height self kap Zmid Zc =
     (let nh0 = map (\<lambda>z. (z - Zmid) / (kap * r_minor self)) Zc;
          nh1 = map (\<lambda>v. if np_isclose v 1 isclose_rtol isclose_atol then 1 else v) nh0
      in map (\<lambda>v. if np_isclose v (- 1) isclose_rtol isclose_atol then - 1 else v) nh1)"

text \<open>Lines 184 to 191: the normalised radius, with \<^verbatim>\<open>atol=1e-4\<close>.\<close>

definition normalised_radius :: "local_geometry_mxh \<Rightarrow> real list \<Rightarrow> real list" where
  "normalised_radius self Rc =
     (let nr0 = map (\<lambda>r. (r - Rmaj self * a_minor self) / r_minor self) Rc;
          nr1 = map (\<lambda>v. if np_isclose v 1 isclose_rtol (1 / 10 ^ 4) then 1 else v) nr0
      in map (\<lambda>v. if np_isclose v (- 1) isclose_rtol (1 / 10 ^ 4) then - 1 else v) nr1)"

text \<open>Lines 195 to 197: the choice of branch, element by element. The three arrays
  have one length here.\<close>

definition select_branch ::
  "real \<Rightarrow> real list \<Rightarrow> real list \<Rightarrow> real list \<Rightarrow> real list \<Rightarrow> real list \<times> real list" where
  "select_branch R_upper Rb Zc th0 thR0 =
     (let th1 = map (\<lambda>(r, t). if r < R_upper then pi - t else t) (zip Rb th0);
          th2 = map (\<lambda>((r, z), t). if R_upper \<le> r \<and> z < 0 then 2 * pi + t else t)
                  (zip (zip Rb Zc) th1);
          thR1 = map (\<lambda>(z, t). if z < 0 then 2 * pi - t else t) (zip Zc thR0)
      in (th2, thR1))"

text \<open>Lines 199 to 202: \<^verbatim>\<open>if theta[0] > np.pi: theta[0] += -2 * np.pi; thetaR[0] += -2 * np.pi\<close>.\<close>

definition first_point :: "real list \<Rightarrow> real list \<Rightarrow> error + real list \<times> real list" where
  "first_point th thR =
     (case th of
        [] \<Rightarrow> Inl IndexError
      | t0 # _ \<Rightarrow>
          if pi < t0 then
            (case thR of
               [] \<Rightarrow> Inl IndexError
             | tR0 # _ \<Rightarrow> Inr (th[0 := t0 + - 2 * pi], thR[0 := tR0 + - 2 * pi]))
          else Inr (th, thR))"

text \<open>What the angle mapping computes.\<close>

record angles =
  am_kappa :: real
  am_Zmid :: real
  am_Zind :: nat
  am_R_upper :: real
  am_theta :: "real list"
  am_thetaR :: "real list"

text \<open>Lines 164 to 197. \<^verbatim>\<open>max(Z)\<close> raises on an empty array and \<^verbatim>\<open>R[Zind]\<close> on an
  \<open>R\<close> that is too short; \<open>R\<close> and the arrays computed from it are broadcast against
  \<open>Z\<close> by the \<^verbatim>\<open>np.where\<close> of lines 195 to 197.\<close>

definition branch_angles :: "local_geometry_mxh \<Rightarrow> real list \<Rightarrow> real list \<Rightarrow> error + angles" where
  "branch_angles self Rc Zc =
     (if Zc = [] then Inl (ValueError ''max() arg is an empty sequence'')
      else if r_minor self = 0 then Inl NotFinite
      else
        let kap = (Max (set Zc) - Min (set Zc)) / (2 * r_minor self);
            Zmid = (Max (set Zc) + Min (set Zc)) / 2;
            Zind = np_argmax (map abs Zc)
        in
          if length Rc \<le> Zind then Inl IndexError
          else if kap * r_minor self = 0 then Inl NotFinite
          else
            (case np_arcsin (normalised_height self kap Zmid Zc) of
               Inl e \<Rightarrow> Inl e
             | Inr th0 \<Rightarrow>
                 (case np_arccos (normalised_radius self Rc) of
                    Inl e \<Rightarrow> Inl e
                  | Inr thR0 \<Rightarrow>
                      (case broadcast_to (length Zc) Rc of
                         Inl e \<Rightarrow> Inl e
                       | Inr Rb \<Rightarrow>
                           (case broadcast_to (length Zc) thR0 of
                              Inl e \<Rightarrow> Inl e
                            | Inr thRb \<Rightarrow>
                                (case select_branch (Rc ! Zind) Rb Zc th0 thRb of
                                   (th2, thR1) \<Rightarrow>
                                     Inr \<lparr>am_kappa = kap, am_Zmid = Zmid, am_Zind = Zind,
                                          am_R_upper = Rc ! Zind,
                                          am_theta = th2, am_thetaR = thR1\<rparr>))))))"

text \<open>Lines 164 to 202.\<close>

definition angle_mapping :: "local_geometry_mxh \<Rightarrow> real list \<Rightarrow> real list \<Rightarrow> error + angles" where
  "angle_mapping self Rc Zc =
     (case branch_angles self Rc Zc of
        Inl e \<Rightarrow> Inl e
      | Inr b \<Rightarrow>
          (case first_point (am_theta b) (am_thetaR b) of
             Inl e \<Rightarrow> Inl e
           | Inr (th3, thR2) \<Rightarrow> Inr (b\<lparr>am_theta := th3, am_thetaR := thR2\<rparr>)))"

subsection \<open>The harmonic sums of \<open>thetaR\<close>\<close>

text \<open>Every method below forms \<^verbatim>\<open>ntheta = np.outer(theta, self.n)\<close>, an expression in
  the coefficient arrays, \<^verbatim>\<open>self.n\<close> and \<^verbatim>\<open>ntheta\<close> taken element by element, and
  sums it over \<^verbatim>\<open>axis=1\<close>. \<open>rows_sum f c s ntheta\<close> is that sum for the expression
  \<open>f\<close> of one cosine coefficient, one sine coefficient, one harmonic number and one entry
  of \<^verbatim>\<open>ntheta\<close>. The coefficient arrays are broadcast against the harmonic axis first.\<close>

definition rows_sum ::
  "(real \<Rightarrow> real \<Rightarrow> real \<Rightarrow> real \<Rightarrow> real) \<Rightarrow> real list \<Rightarrow> real list \<Rightarrow> real list list \<Rightarrow> real list" where
  "rows_sum f c s ntheta =
     map (\<lambda>row. sum_list (map (\<lambda>(ck, sk, nk, v). f ck sk nk v) (zip c (zip s (zip n_arr row))))) ntheta"

definition harmonic_sum ::
  "(real \<Rightarrow> real \<Rightarrow> real \<Rightarrow> real \<Rightarrow> real) \<Rightarrow> real list \<Rightarrow> real list \<Rightarrow> real list \<Rightarrow> error + real list" where
  "harmonic_sum f c s th =
     (case broadcast_to n_moments c of
        Inl e \<Rightarrow> Inl e
      | Inr cb \<Rightarrow>
          (case broadcast_to n_moments s of
             Inl e \<Rightarrow> Inl e
           | Inr sb \<Rightarrow> Inr (rows_sum f cb sb (np_outer th n_arr))))"

text \<open>Lines 295 to 315.\<close>

definition get_thetaR :: "local_geometry_mxh \<Rightarrow> real list \<Rightarrow> error + real list" where
  "get_thetaR self th =
     (case harmonic_sum (\<lambda>ck sk nk v. ck * cos v + sk * sin v) (cn self) (sn self) th of
        Inl e \<Rightarrow> Inl e
      | Inr hs \<Rightarrow> Inr (map (\<lambda>(t, h). t + h) (zip th hs)))"

text \<open>Lines 317 to 337.\<close>

definition get_dthetaR_dtheta :: "local_geometry_mxh \<Rightarrow> real list \<Rightarrow> error + real list" where
  "get_dthetaR_dtheta self th =
     (case harmonic_sum (\<lambda>ck sk nk v. - ck * nk * sin v + sk * nk * cos v) (cn self) (sn self) th of
        Inl e \<Rightarrow> Inl e
      | Inr hs \<Rightarrow> Inr (map (\<lambda>h. 1 + h) hs))"

text \<open>Lines 339 to 359.\<close>

definition get_d2thetaR_dtheta2 :: "local_geometry_mxh \<Rightarrow> real list \<Rightarrow> error + real list" where
  "get_d2thetaR_dtheta2 self th =
     (case harmonic_sum (\<lambda>ck sk nk v. nk\<^sup>2 * (ck * cos v + sk * sin v)) (cn self) (sn self) th of
        Inl e \<Rightarrow> Inl e
      | Inr hs \<Rightarrow> Inr (map (\<lambda>h. - h) hs))"

text \<open>Lines 361 to 384.\<close>

definition get_dthetaR_dr ::
  "local_geometry_mxh \<Rightarrow> real list \<Rightarrow> real list \<Rightarrow> real list \<Rightarrow> error + real list" where
  "get_dthetaR_dr self th dcndr' dsndr' =
     harmonic_sum (\<lambda>ck sk nk v. ck * cos v + sk * sin v) dcndr' dsndr' th"

text \<open>Lines 386 to 409.\<close>

definition get_d2thetaR_drdtheta ::
  "local_geometry_mxh \<Rightarrow> real list \<Rightarrow> real list \<Rightarrow> real list \<Rightarrow> error + real list" where
  "get_d2thetaR_drdtheta self th dcndr' dsndr' =
     harmonic_sum (\<lambda>ck sk nk v. - nk * ck * sin v + nk * sk * cos v) dcndr' dsndr' th"

subsection \<open>The derivatives of \<open>R\<close> and \<open>Z\<close>\<close>

text \<open>The methods of lines 513 to 692 are arithmetic expressions that numpy evaluates
  element by element; each is modelled on one element, and a caller maps it over its
  arrays, which have one length wherever the file calls them.\<close>

definition get_dZdtheta :: "local_geometry_mxh \<Rightarrow> real \<Rightarrow> bool \<Rightarrow> real" where
  "get_dZdtheta self t normalised =
     (let rmin = (if normalised then rho self else r_minor self)
      in kappa self * rmin * cos t)"

definition get_d2Zdtheta2 :: "local_geometry_mxh \<Rightarrow> real \<Rightarrow> bool \<Rightarrow> real" where
  "get_d2Zdtheta2 self t normalised =
     (let rmin = (if normalised then rho self else r_minor self)
      in - kappa self * rmin * sin t)"

definition get_dZdr :: "local_geometry_mxh \<Rightarrow> real \<Rightarrow> real \<Rightarrow> real \<Rightarrow> real" where
  "get_dZdr self t dZ0dr' s_kappa' = dZ0dr' + kappa self * sin t * (1 + s_kappa')"

definition get_d2Zdrdtheta :: "local_geometry_mxh \<Rightarrow> real \<Rightarrow> real \<Rightarrow> real" where
  "get_d2Zdrdtheta self t s_kappa' = kappa self * cos t * (1 + s_kappa')"

definition get_dRdtheta :: "local_geometry_mxh \<Rightarrow> real \<Rightarrow> real \<Rightarrow> bool \<Rightarrow> real" where
  "get_dRdtheta self tR dtR_dt normalised =
     (let rmin = (if normalised then rho self else r_minor self)
      in - rmin * sin tR * dtR_dt)"

definition get_d2Rdtheta2 :: "local_geometry_mxh \<Rightarrow> real \<Rightarrow> real \<Rightarrow> real \<Rightarrow> bool \<Rightarrow> real" where
  "get_d2Rdtheta2 self tR dtR_dt d2tR_dt2 normalised =
     (let rmin = (if normalised then rho self else r_minor self)
      in - rmin * sin tR * d2tR_dt2 - rmin * (dtR_dt\<^sup>2) * cos tR)"

definition get_dRdr :: "local_geometry_mxh \<Rightarrow> real \<Rightarrow> real \<Rightarrow> real \<Rightarrow> real" where
  "get_dRdr self shift' tR dtR_dr = shift' + cos tR - rho self * sin tR * dtR_dr"

definition get_d2Rdrdtheta :: "local_geometry_mxh \<Rightarrow> real \<Rightarrow> real \<Rightarrow> real \<Rightarrow> real \<Rightarrow> real" where
  "get_d2Rdrdtheta self tR dtR_dr dtR_dt d2tR_drdt =
     - dtR_dt * sin tR - rho self * (sin tR * d2tR_drdt + dtR_dr * dtR_dt * cos tR)"

text \<open>Lines 411 to 467. \<^verbatim>\<open>params\<close> is \<open>None\<close> or an array; \<^verbatim>\<open>params[0]\<close>,
  \<^verbatim>\<open>params[1]\<close> and \<^verbatim>\<open>params[2]\<close> raise on an array that is too short, the two slices
  never do. The method is given in state-passing form: it returns the object as it
  leaves it.\<close>

type_synonym rz_derivatives = "real list \<times> real list \<times> real list \<times> real list"

definition shear_parameters ::
  "local_geometry_mxh \<Rightarrow> real list option \<Rightarrow> error + real \<times> real \<times> real \<times> real list \<times> real list" where
  "shear_parameters self params =
     (case params of
        None \<Rightarrow> Inr (shift self, s_kappa self, dZ0dr self, dcndr self, dsndr self)
      | Some p \<Rightarrow>
          if length p < 3 then Inl IndexError
          else Inr (p ! 0, p ! 1, p ! 2, take n_moments (drop 3 p), drop (n_moments + 3) p))"

definition get_RZ_derivatives ::
  "local_geometry_mxh \<Rightarrow> real list \<Rightarrow> real list option \<Rightarrow> bool
     \<Rightarrow> (error + rz_derivatives) \<times> local_geometry_mxh" where
  "get_RZ_derivatives self th params normalised =
     (case shear_parameters self params of
        Inl e \<Rightarrow> (Inl e, self)
      | Inr (shift', s_kappa', dZ0dr', dcndr', dsndr') \<Rightarrow>
          (case get_thetaR self th of
             Inl e \<Rightarrow> (Inl e, self)
           | Inr thR \<Rightarrow>
               (case get_dthetaR_dr self th dcndr' dsndr' of
                  Inl e \<Rightarrow> (Inl e, self)
                | Inr dthR_dr \<Rightarrow>
                    (case get_dthetaR_dtheta self th of
                       Inl e \<Rightarrow> (Inl e, self)
                     | Inr dthR_dth \<Rightarrow>
                         let dZdtheta = map (\<lambda>t. get_dZdtheta self t normalised) th;
                             dZdr = map (\<lambda>t. get_dZdr self t dZ0dr' s_kappa') th;
                             dRdtheta = map (\<lambda>(tR, d). get_dRdtheta self tR d normalised)
                                          (zip thR dthR_dth);
                             dRdr = map (\<lambda>(tR, d). get_dRdr self shift' tR d) (zip thR dthR_dr)
                         in (Inr (dRdtheta, dRdr, dZdtheta, dZdr), self)))))"

text \<open>Lines 469 to 511.\<close>

definition get_RZ_second_derivatives ::
  "local_geometry_mxh \<Rightarrow> real list \<Rightarrow> bool \<Rightarrow> error + rz_derivatives" where
  "get_RZ_second_derivatives self th normalised =
     (case get_thetaR self th of
        Inl e \<Rightarrow> Inl e
      | Inr thR \<Rightarrow>
          (case get_dthetaR_dr self th (dcndr self) (dsndr self) of
             Inl e \<Rightarrow> Inl e
           | Inr dthR_dr \<Rightarrow>
               (case get_dthetaR_dtheta self th of
                  Inl e \<Rightarrow> Inl e
                | Inr dthR_dth \<Rightarrow>
                    (case get_d2thetaR_drdtheta self th (dcndr self) (dsndr self) of
                       Inl e \<Rightarrow> Inl e
                     | Inr d2thR_drdth \<Rightarrow>
                         (case get_d2thetaR_dtheta2 self th of
                            Inl e \<Rightarrow> Inl e
                          | Inr d2thR_dth2 \<Rightarrow>
                              let d2Zdtheta2 = map (\<lambda>t. get_d2Zdtheta2 self t normalised) th;
                                  d2Zdrdtheta = map (\<lambda>t. get_d2Zdrdtheta self t (s_kappa self)) th;
                                  d2Rdtheta2 =
                                    map (\<lambda>(tR, d, d2). get_d2Rdtheta2 self tR d d2 normalised)
                                      (zip thR (zip dthR_dth d2thR_dth2));
                                  d2Rdrdtheta =
                                    map (\<lambda>(tR, dr, dt, drt). get_d2Rdrdtheta self tR dr dt drt)
                                      (zip thR (zip dthR_dr (zip dthR_dth d2thR_drdth)))
                              in Inr (d2Rdtheta2, d2Rdrdtheta, d2Zdtheta2, d2Zdrdtheta))))))"

text \<open>Lines 694 to 726.\<close>

definition get_flux_surface ::
  "local_geometry_mxh \<Rightarrow> real list \<Rightarrow> bool \<Rightarrow> error + real list \<times> real list" where
  "get_flux_surface self th normalised =
     (case get_thetaR self th of
        Inl e \<Rightarrow> Inl e
      | Inr thR \<Rightarrow>
          let Rs = map (\<lambda>tR. Rmaj self + rho self * cos tR) thR;
              Zs = map (\<lambda>t. Z0 self + kappa self * rho self * sin t) th
          in if \<not> normalised
             then Inr (map (\<lambda>v. v * a_minor self) Rs, map (\<lambda>v. v * a_minor self) Zs)
             else Inr (Rs, Zs))"

subsection \<open>\<^verbatim>\<open>_set_shape_coefficients\<close>, lines 204 to 253: moments and fit\<close>

text \<open>\<^verbatim>\<open>scipy.integrate.simpson(y, x)\<close> is a library function: the composite Simpson
  rule for the samples \<open>y\<close> at the points \<open>x\<close>. It is a parameter \<open>simpson\<close> of the
  model, applied to each row as \<^verbatim>\<open>axis=1\<close> says.

  Lines 206 to 211: the moments \<open>cn\<close> and \<open>sn\<close>.\<close>

definition harmonic_moments ::
  "(real list \<Rightarrow> real list \<Rightarrow> real) \<Rightarrow> real list \<Rightarrow> real list \<Rightarrow> real list \<times> real list" where
  "harmonic_moments simpson th thR =
     (let theta_diff = map (\<lambda>(tR, t). tR - t) (zip thR th);
          ntheta = np_outer n_arr th;
          cn' = map (\<lambda>row. simpson (map (\<lambda>(d, v). d * cos v) (zip theta_diff row)) th / pi) ntheta;
          sn' = map (\<lambda>row. simpson (map (\<lambda>(d, v). d * sin v) (zip theta_diff row)) th / pi) ntheta
      in (cn', sn'))"

text \<open>Lines 164 to 221: the angle mapping, the moments, and the attributes set from them.\<close>

definition shape_moments ::
  "(real list \<Rightarrow> real list \<Rightarrow> real) \<Rightarrow> local_geometry_mxh \<Rightarrow> real list \<Rightarrow> real list
     \<Rightarrow> error + local_geometry_mxh" where
  "shape_moments simpson self Rc Zc =
     (case angle_mapping self Rc Zc of
        Inl e \<Rightarrow> Inl e
      | Inr a \<Rightarrow>
          (case harmonic_moments simpson (am_theta a) (am_thetaR a) of
             (cn', sn') \<Rightarrow>
               let self1 = self\<lparr>theta_eq := am_theta a, kappa := am_kappa a, sn := sn', cn := cn',
                                 theta := am_theta a\<rparr>
               in (case get_thetaR self1 (theta self1) of
                     Inl e \<Rightarrow> Inl e
                   | Inr thR \<Rightarrow>
                       let self2 = self1\<lparr>thetaR := thR\<rparr>
                       in (case get_dthetaR_dtheta self2 (theta self2) of
                             Inl e \<Rightarrow> Inl e
                           | Inr d \<Rightarrow>
                               let self3 = self2\<lparr>dthetaR_dtheta := d\<rparr>
                               in (case get_flux_surface self3 (theta self3) True of
                                     Inl e \<Rightarrow> Inl e
                                   | Inr (Rs, Zs) \<Rightarrow> Inr (self3\<lparr>R := Rs, Z := Zs\<rparr>))))))"

text \<open>The result of \<^verbatim>\<open>scipy.optimize.least_squares\<close>: the fields of \<^verbatim>\<open>OptimizeResult\<close>
  that the file reads (\<open>fit_x\<close> is its field \<^verbatim>\<open>x\<close>).\<close>

record optimize_result =
  success :: bool
  message :: string
  cost :: real
  fit_x :: "real list"

text \<open>What the method prints or warns; the residual in the text is kept as a number.\<close>

datatype emitted =
    Printed real
  | Warned real

text \<open>Lines 228 to 253: the check of the fit and the attributes set from it. An
  exception leaves the object as lines 204 to 221 set it; the model returns the
  exception alone.\<close>

definition store_fit ::
  "local_geometry_mxh \<Rightarrow> optimize_result \<Rightarrow> bool \<Rightarrow> error + local_geometry_mxh \<times> emitted list" where
  "store_fit self fits verbose =
     (if \<not> success fits then
        Inl (Exception (''Least squares fitting in MXH::from_global_eq failed with message : ''
                          @ message fits))
      else
        let out1 = (if verbose then [Printed (cost fits)] else []);
            out2 = out1 @ (if 1 / 10 < cost fits then [Warned (cost fits)] else [])
        in
          if length (fit_x fits) < 3 then Inl IndexError
          else
            let self1 = self\<lparr>shift := fit_x fits ! 0, s_kappa := fit_x fits ! 1,
                              dZ0dr := fit_x fits ! 2,
                              dcndr := take n_moments (drop 3 (fit_x fits)),
                              dsndr := drop (n_moments + 3) (fit_x fits)\<rparr>
            in
              if dsndr self1 = [] then Inl IndexError
              else
                let self2 = self1\<lparr>dsndr := (dsndr self1)[0 := 0]\<rparr>
                in (case get_dthetaR_dr self2 (theta self2) (dcndr self2) (dsndr self2) of
                      Inl e \<Rightarrow> Inl e
                    | Inr d \<Rightarrow> Inr (self2\<lparr>dthetaR_dr := d\<rparr>, out2)))"

text \<open>The whole method. \<^verbatim>\<open>least_squares\<close> is the library's solver and
  \<^verbatim>\<open>minimise_b_poloidal\<close> the residual of the base class, which reads the object as
  line 221 leaves it; both are parameters. The solver returns its result or raises.
  The argument \<^verbatim>\<open>b_poloidal\<close> is not read by the method.\<close>

definition set_shape_coefficients ::
  "(real list \<Rightarrow> real list \<Rightarrow> real)
     \<Rightarrow> ((real list \<Rightarrow> real list) \<Rightarrow> real list \<Rightarrow> error + optimize_result)
     \<Rightarrow> (local_geometry_mxh \<Rightarrow> real list \<Rightarrow> real list)
     \<Rightarrow> local_geometry_mxh \<Rightarrow> real list \<Rightarrow> real list \<Rightarrow> real list \<Rightarrow> bool \<Rightarrow> real
     \<Rightarrow> error + local_geometry_mxh \<times> emitted list" where
  "set_shape_coefficients simpson least_squares minimise_b_poloidal self Rc Zc b_poloidal verbose
       shift0 =
     (case shape_moments simpson self Rc Zc of
        Inl e \<Rightarrow> Inl e
      | Inr self1 \<Rightarrow>
          let s_kappa_init = 0;
              params = [shift0, s_kappa_init, 0] @ replicate (n_moments * 2) 0
          in (case least_squares (minimise_b_poloidal self1) params of
                Inl e \<Rightarrow> Inl e
              | Inr fits \<Rightarrow> store_fit self1 fits verbose))"

subsection \<open>A concrete object\<close>

text \<open>A surface of minor radius 1 about the major radius 3, lengths in units of
  \<open>a_minor = 1\<close>, with the four zero moments of \<^verbatim>\<open>default_mxh_inputs\<close>, on which the
  theorems below are run.\<close>

definition example_self :: local_geometry_mxh where
  "example_self =
     \<lparr>r_minor = 1, a_minor = 1, Rmaj = 3, Z0 = 0, rho = 1, kappa = 1, s_kappa = 0, shift = 0,
      dZ0dr = 0, cn = [0, 0, 0, 0], sn = [0, 0, 0, 0], dcndr = [0, 0, 0, 0],
      dsndr = [0, 0, 0, 0], theta = [], theta_eq = [], thetaR = [], dthetaR_dtheta = [],
      dthetaR_dr = [], R = [], Z = []\<rparr>"

text \<open>A contour of four points \<open>(R, Z)\<close> around it, the lowest first: bottom
  \<open>(3, -1)\<close>, outboard \<open>(4, 1/2)\<close>, top \<open>(7/2, 2)\<close>, inboard \<open>(2, 1/2)\<close>.\<close>

definition example_R :: "real list" where
  "example_R = [3, 4, 7 / 2, 2]"

definition example_Z :: "real list" where
  "example_Z = [- 1, 1 / 2, 2, 1 / 2]"

subsection \<open>Reference definitions\<close>

text \<open>\<open>R_upper\<close> as the specification words it: the \<open>R\<close> value at the index that
  \<^verbatim>\<open>np.argmax\<close> finds for \<open>|Z - Z_mid|\<close>. It is compared with line 168 below.\<close>

definition R_upper_from_midplane :: "real list \<Rightarrow> real list \<Rightarrow> real" where
  "R_upper_from_midplane Rc Zc =
     (let Zmid = (Max (set Zc) + Min (set Zc)) / 2
      in Rc ! np_argmax (map (\<lambda>z. \<bar>z - Zmid\<bar>) Zc))"

text \<open>\<open>thetaR\<close> as the specification writes it: \<open>theta\<close> plus the sum over the
  harmonics \<open>k\<close> of \<open>cn[k] * cos(k * theta) + sn[k] * sin(k * theta)\<close>. It is compared
  with \<^verbatim>\<open>get_thetaR\<close> below.\<close>

definition thetaR_series :: "real list \<Rightarrow> real list \<Rightarrow> real \<Rightarrow> real" where
  "thetaR_series c s t = t + (\<Sum>k<n_moments. c ! k * cos (real k * t) + s ! k * sin (real k * t))"

text \<open>The harmonic sum alone, and its first and second derivative in \<open>theta\<close> taken term
  by term: \<open>cos(k * theta)\<close> becomes \<open>- k * sin(k * theta)\<close> and then
  \<open>- k^2 * cos(k * theta)\<close>, \<open>sin(k * theta)\<close> becomes \<open>k * cos(k * theta)\<close> and then
  \<open>- k^2 * sin(k * theta)\<close>. They are compared with the five \<open>thetaR\<close> methods below.\<close>

definition harmonic_series :: "real list \<Rightarrow> real list \<Rightarrow> real \<Rightarrow> real" where
  "harmonic_series c s t = (\<Sum>k<n_moments. c ! k * cos (real k * t) + s ! k * sin (real k * t))"

definition harmonic_series_d1 :: "real list \<Rightarrow> real list \<Rightarrow> real \<Rightarrow> real" where
  "harmonic_series_d1 c s t =
     (\<Sum>k<n_moments. - (real k * c ! k * sin (real k * t)) + real k * s ! k * cos (real k * t))"

definition harmonic_series_d2 :: "real list \<Rightarrow> real list \<Rightarrow> real \<Rightarrow> real" where
  "harmonic_series_d2 c s t =
     (\<Sum>k<n_moments. - ((real k)\<^sup>2 * (c ! k * cos (real k * t) + s ! k * sin (real k * t))))"

subsection \<open>Concrete collaborators\<close>

text \<open>Stand-ins for the parameters of \<open>set_shape_coefficients\<close>, on which the theorems
  below are run: a quadrature that adds the samples up, a residual that is empty, and a
  solver that returns a fixed result of eleven entries with the success flag and the
  cost it is given.\<close>

definition example_quadrature :: "real list \<Rightarrow> real list \<Rightarrow> real" where
  "example_quadrature y x = sum_list y"

definition example_residual :: "local_geometry_mxh \<Rightarrow> real list \<Rightarrow> real list" where
  "example_residual self params = []"

definition example_fit :: "bool \<Rightarrow> real \<Rightarrow> optimize_result" where
  "example_fit ok c =
     \<lparr>success = ok, message = ''xtol'', cost = c, fit_x = [1, 2, 3, 4, 5, 6, 7, 8, 9, 10, 11]\<rparr>"

definition example_least_squares ::
  "bool \<Rightarrow> real \<Rightarrow> (real list \<Rightarrow> real list) \<Rightarrow> real list \<Rightarrow> error + optimize_result" where
  "example_least_squares ok c residual params = Inr (example_fit ok c)"

section \<open>Properties\<close>

subsection \<open>\<^verbatim>\<open>np.argmax\<close>\<close>

lemma argmax_from_spec:
  assumes "besti < length pre" and "pre ! besti = best"
    and "\<forall>j<length pre. pre ! j \<le> best" and "\<forall>j<besti. pre ! j < best"
  shows "argmax_from vs (length pre) best besti < length (pre @ vs)
     \<and> (\<forall>j<length (pre @ vs). (pre @ vs) ! j \<le> (pre @ vs) ! argmax_from vs (length pre) best besti)
     \<and> (\<forall>j<argmax_from vs (length pre) best besti.
           (pre @ vs) ! j < (pre @ vs) ! argmax_from vs (length pre) best besti)"
  using assms
proof (induction vs arbitrary: pre best besti)
  case Nil
  then show ?case by simp
next
  case (Cons v vs)
  show ?case
  proof (cases "best < v")
    case True
    have a: "length pre < length (pre @ [v])" by simp
    have b: "(pre @ [v]) ! length pre = v" by simp
    have c: "\<forall>j<length (pre @ [v]). (pre @ [v]) ! j \<le> v"
      using Cons.prems(3) True by (auto simp: nth_append less_Suc_eq)
    have d: "\<forall>j<length pre. (pre @ [v]) ! j < v"
      using Cons.prems(3) True by (auto simp: nth_append)
    from Cons.IH [of "length pre" "pre @ [v]" v, OF a b c d] True
    show ?thesis by simp
  next
    case False
    have a: "besti < length (pre @ [v])" using Cons.prems(1) by simp
    have b: "(pre @ [v]) ! besti = best" using Cons.prems(1,2) by (simp add: nth_append)
    have c: "\<forall>j<length (pre @ [v]). (pre @ [v]) ! j \<le> best"
      using Cons.prems(3) False by (auto simp: nth_append less_Suc_eq)
    have d: "\<forall>j<besti. (pre @ [v]) ! j < best"
      using Cons.prems(1,4) by (auto simp: nth_append)
    from Cons.IH [of besti "pre @ [v]" best, OF a b c d] False
    show ?thesis by simp
  qed
qed

lemma np_argmax_spec:
  assumes "vs \<noteq> []"
  shows "np_argmax vs < length vs"
    and "\<forall>j<length vs. vs ! j \<le> vs ! np_argmax vs"
    and "\<forall>j<np_argmax vs. vs ! j < vs ! np_argmax vs"
proof -
  obtain v rest where vs: "vs = v # rest" using assms by (cases vs) auto
  have "argmax_from rest (length [v]) v 0 < length ([v] @ rest)
     \<and> (\<forall>j<length ([v] @ rest). ([v] @ rest) ! j \<le> ([v] @ rest) ! argmax_from rest (length [v]) v 0)
     \<and> (\<forall>j<argmax_from rest (length [v]) v 0.
           ([v] @ rest) ! j < ([v] @ rest) ! argmax_from rest (length [v]) v 0)"
    by (rule argmax_from_spec) auto
  then show "np_argmax vs < length vs"
    and "\<forall>j<length vs. vs ! j \<le> vs ! np_argmax vs"
    and "\<forall>j<np_argmax vs. vs ! j < vs ! np_argmax vs"
    by (simp_all add: vs np_argmax_def)
qed

subsection \<open>The angle mapping\<close>

lemma select_branch_length:
  assumes "select_branch u Rb Zc th0 thR0 = (th2, thR1)"
    and "length Rb = length Zc" "length th0 = length Zc" "length thR0 = length Zc"
  shows "length th2 = length Zc \<and> length thR1 = length Zc"
  using assms by (auto simp: select_branch_def Let_def)

lemma broadcast_to_length: "broadcast_to k vs = Inr ws \<Longrightarrow> length ws = k"
  by (auto simp: broadcast_to_def split: if_splits)

lemma np_arcsin_length: "np_arcsin vs = Inr ws \<Longrightarrow> length ws = length vs"
  by (auto simp: np_arcsin_def split: if_splits)

lemma normalised_height_length: "length (normalised_height self kap Zmid Zc) = length Zc"
  by (simp add: normalised_height_def Let_def)

lemma branch_angles_Inr:
  assumes "branch_angles self Rc Zc = Inr b"
  shows "Zc \<noteq> []" and "length (am_theta b) = length Zc" and "length (am_thetaR b) = length Zc"
    and "am_Zind b = np_argmax (map abs Zc)" and "am_Zind b < length Rc"
    and "am_R_upper b = Rc ! am_Zind b"
    and "am_Zmid b = (Max (set Zc) + Min (set Zc)) / 2"
    and "am_kappa b = (Max (set Zc) - Min (set Zc)) / (2 * r_minor self)"
  using assms
  by (auto simp: branch_angles_def Let_def normalised_height_length
      split: if_splits sum.splits prod.splits
      dest!: broadcast_to_length np_arcsin_length dest: select_branch_length)

lemmas angle_mapping_defs =
  branch_angles_def angle_mapping_def np_argmax_def np_arcsin_def np_arccos_def
  normalised_height_def normalised_radius_def np_isclose_def isclose_rtol_def isclose_atol_def
  broadcast_to_def select_branch_def first_point_def Let_def

lemma example_branch_angles:
  "branch_angles example_self example_R example_Z =
     Inr \<lparr>am_kappa = 3 / 2, am_Zmid = 1 / 2, am_Zind = 2, am_R_upper = 7 / 2,
          am_theta = [3 * pi / 2, 0, pi / 2, pi], am_thetaR = [3 * pi / 2, 0, pi / 3, pi]\<rparr>"
  by (simp add: angle_mapping_defs example_self_def example_R_def example_Z_def numeral_2_eq_2)

lemma example_angle_mapping:
  "angle_mapping example_self example_R example_Z =
     Inr \<lparr>am_kappa = 3 / 2, am_Zmid = 1 / 2, am_Zind = 2, am_R_upper = 7 / 2,
          am_theta = [- (pi / 2), 0, pi / 2, pi], am_thetaR = [- (pi / 2), 0, pi / 3, pi]\<rparr>"
  by (simp add: angle_mapping_def example_branch_angles first_point_def)

text \<open>
  Claim C1, as the code has it. When the first \<open>theta\<close> of lines 195 to 197 exceeds \<open>pi\<close>,
  lines 200 to 202 subtract \<open>2 * pi\<close> from the first element of \<open>theta\<close> and from the first
  element of \<open>thetaR\<close>, and from no other: every later element of both arrays is left as
  the branch selection computed it.
\<close>

theorem first_point_alone_is_shifted:
  assumes "branch_angles self Rc Zc = Inr b" and "pi < am_theta b ! 0"
  shows "\<exists>a. angle_mapping self Rc Zc = Inr a
           \<and> am_theta a = (am_theta b)[0 := am_theta b ! 0 - 2 * pi]
           \<and> am_thetaR a = (am_thetaR b)[0 := am_thetaR b ! 0 - 2 * pi]
           \<and> am_theta a ! 0 = am_theta b ! 0 - 2 * pi
           \<and> am_thetaR a ! 0 = am_thetaR b ! 0 - 2 * pi
           \<and> drop 1 (am_theta a) = drop 1 (am_theta b)
           \<and> drop 1 (am_thetaR a) = drop 1 (am_thetaR b)"
proof -
  have ne: "Zc \<noteq> []" using assms(1) by (rule branch_angles_Inr)
  have l1: "length (am_theta b) = length Zc" using assms(1) by (rule branch_angles_Inr)
  have l2: "length (am_thetaR b) = length Zc" using assms(1) by (rule branch_angles_Inr)
  obtain t0 ts where th: "am_theta b = t0 # ts" using ne l1 by (cases "am_theta b") auto
  obtain u0 us where thR: "am_thetaR b = u0 # us" using ne l2 by (cases "am_thetaR b") auto
  show ?thesis
    using assms th thR by (simp add: angle_mapping_def first_point_def)
qed

theorem first_point_alone_is_shifted_witness:
  "\<exists>a. angle_mapping example_self example_R example_Z = Inr a
     \<and> am_theta a = [- (pi / 2), 0, pi / 2, pi]
     \<and> am_thetaR a = [- (pi / 2), 0, pi / 3, pi]"
  using first_point_alone_is_shifted [OF example_branch_angles] by auto

text \<open>
  Claim C1, as the specification states it, fails. On the four-point contour the first
  \<open>theta\<close> is \<open>3 * pi / 2\<close>, above \<open>pi\<close>; the method returns \<open>theta\<close> and \<open>thetaR\<close> with
  the first element lowered by \<open>2 * pi\<close> and the other three unchanged, which is not
  the whole sequence lowered by \<open>2 * pi\<close>.
\<close>

theorem whole_sequence_shift_counterexample:
  "branch_angles example_self example_R example_Z =
     Inr \<lparr>am_kappa = 3 / 2, am_Zmid = 1 / 2, am_Zind = 2, am_R_upper = 7 / 2,
          am_theta = [3 * pi / 2, 0, pi / 2, pi], am_thetaR = [3 * pi / 2, 0, pi / 3, pi]\<rparr>
   \<and> pi < 3 * pi / 2
   \<and> angle_mapping example_self example_R example_Z =
     Inr \<lparr>am_kappa = 3 / 2, am_Zmid = 1 / 2, am_Zind = 2, am_R_upper = 7 / 2,
          am_theta = [- (pi / 2), 0, pi / 2, pi], am_thetaR = [- (pi / 2), 0, pi / 3, pi]\<rparr>
   \<and> [- (pi / 2), 0, pi / 2, pi]
       \<noteq> [3 * pi / 2 - 2 * pi, 0 - 2 * pi, pi / 2 - 2 * pi, pi - 2 * pi]
   \<and> [- (pi / 2), 0, pi / 3, pi]
       \<noteq> [3 * pi / 2 - 2 * pi, 0 - 2 * pi, pi / 3 - 2 * pi, pi - 2 * pi]"
  by (simp add: example_branch_angles example_angle_mapping)

lemma abs_argmax_is_extreme:
  fixes Zc :: "real list"
  assumes ne: "Zc \<noteq> []" and i: "i < length Zc" and mx: "\<forall>j<length Zc. \<bar>Zc ! j\<bar> \<le> \<bar>Zc ! i\<bar>"
  shows "Zc ! i = Max (set Zc) \<or> Zc ! i = Min (set Zc)"
proof -
  have fin: "finite (set Zc)" and nes: "set Zc \<noteq> {}" using ne by auto
  have Min: "Max (set Zc) \<in> set Zc" and Mnin: "Min (set Zc) \<in> set Zc"
    using fin nes by (auto intro: Max_in Min_in)
  have all: "\<And>z. z \<in> set Zc \<Longrightarrow> \<bar>z\<bar> \<le> \<bar>Zc ! i\<bar>"
    using mx by (auto simp: in_set_conv_nth)
  have iM: "Zc ! i \<le> Max (set Zc)" and im: "Min (set Zc) \<le> Zc ! i"
    using i fin by (auto intro: Max_ge Min_le)
  show ?thesis
  proof (cases "0 \<le> Zc ! i")
    case True
    have "\<bar>Max (set Zc)\<bar> \<le> \<bar>Zc ! i\<bar>" using all Min by blast
    then show ?thesis using True iM by linarith
  next
    case False
    have "\<bar>Min (set Zc)\<bar> \<le> \<bar>Zc ! i\<bar>" using all Mnin by blast
    then show ?thesis using False im by linarith
  qed
qed

lemma extreme_is_farthest_from_midplane:
  fixes Zc :: "real list"
  assumes i: "i < length Zc" and ex: "Zc ! i = Max (set Zc) \<or> Zc ! i = Min (set Zc)"
    and j: "j < length Zc"
  shows "\<bar>Zc ! j - (Max (set Zc) + Min (set Zc)) / 2\<bar>
           \<le> \<bar>Zc ! i - (Max (set Zc) + Min (set Zc)) / 2\<bar>"
proof -
  have "Zc ! j \<le> Max (set Zc)" and "Min (set Zc) \<le> Zc ! j"
    using j by (auto intro: Max_ge Min_le)
  then show ?thesis using ex by (auto simp: abs_le_iff field_simps)
qed

text \<open>
  Claim C2, as the code has it. \<open>R_upper\<close> is the \<open>R\<close> value at the first index at
  which \<open>|Z|\<close>, the height measured from \<open>Z = 0\<close>, is largest (line 168 takes
  \<^verbatim>\<open>np.argmax(abs(Z))\<close>). That index is one of those at which \<open>|Z - Z_mid|\<close> is
  largest too, the top and the bottom of the contour being equally far from the midplane.
\<close>

theorem R_upper_at_first_largest_abs_Z:
  assumes "branch_angles self Rc Zc = Inr b"
  shows "am_Zind b = np_argmax (map abs Zc) \<and> am_R_upper b = Rc ! am_Zind b
     \<and> am_Zind b < length Zc \<and> am_Zind b < length Rc
     \<and> (\<forall>j<length Zc. \<bar>Zc ! j\<bar> \<le> \<bar>Zc ! am_Zind b\<bar>)
     \<and> (\<forall>j<am_Zind b. \<bar>Zc ! j\<bar> < \<bar>Zc ! am_Zind b\<bar>)
     \<and> (\<forall>j<length Zc. \<bar>Zc ! j - am_Zmid b\<bar> \<le> \<bar>Zc ! am_Zind b - am_Zmid b\<bar>)"
proof -
  have ne: "Zc \<noteq> []" using assms by (rule branch_angles_Inr)
  have zi: "am_Zind b = np_argmax (map abs Zc)" using assms by (rule branch_angles_Inr)
  have ru: "am_R_upper b = Rc ! am_Zind b" using assms by (rule branch_angles_Inr)
  have lr: "am_Zind b < length Rc" using assms by (rule branch_angles_Inr)
  have zm: "am_Zmid b = (Max (set Zc) + Min (set Zc)) / 2" using assms by (rule branch_angles_Inr)
  have ne': "map abs Zc \<noteq> []" using ne by simp
  have lz: "am_Zind b < length Zc" using np_argmax_spec(1) [OF ne'] zi by simp
  have mx: "\<forall>j<length Zc. \<bar>Zc ! j\<bar> \<le> \<bar>Zc ! am_Zind b\<bar>"
    using np_argmax_spec(2) [OF ne'] zi lz by auto
  have first: "\<forall>j<am_Zind b. \<bar>Zc ! j\<bar> < \<bar>Zc ! am_Zind b\<bar>"
    using np_argmax_spec(3) [OF ne'] zi lz by auto
  have ext: "Zc ! am_Zind b = Max (set Zc) \<or> Zc ! am_Zind b = Min (set Zc)"
    using ne lz mx by (rule abs_argmax_is_extreme)
  have far: "\<forall>j<length Zc. \<bar>Zc ! j - am_Zmid b\<bar> \<le> \<bar>Zc ! am_Zind b - am_Zmid b\<bar>"
    unfolding zm using extreme_is_farthest_from_midplane [OF lz ext] by blast
  show ?thesis using zi ru lz lr mx first far by blast
qed

theorem R_upper_at_first_largest_abs_Z_witness:
  "\<exists>b. branch_angles example_self example_R example_Z = Inr b
     \<and> am_Zind b = 2 \<and> am_R_upper b = example_R ! 2 \<and> example_R ! 2 = 7 / 2
     \<and> \<bar>example_Z ! 0\<bar> < \<bar>example_Z ! 2\<bar>
     \<and> \<bar>example_Z ! 0 - am_Zmid b\<bar> \<le> \<bar>example_Z ! 2 - am_Zmid b\<bar>"
  using R_upper_at_first_largest_abs_Z [OF example_branch_angles]
  by (simp add: example_branch_angles example_branch_angles [unfolded example_R_def example_Z_def]
      example_R_def example_Z_def)

text \<open>
  Claim C2, as the specification states it, fails. On the four-point contour the midplane
  is at \<open>Z = 1/2\<close>; the bottom point (index 0) and the top point (index 2) are both
  \<open>3/2\<close> away from it, so the first index of largest \<open>|Z - Z_mid|\<close> is 0, where
  \<open>R = 3\<close>. The method measures from \<open>Z = 0\<close>, finds the top point and takes
  \<open>R_upper = 7/2\<close>.
\<close>

theorem R_upper_from_midplane_counterexample:
  "branch_angles example_self example_R example_Z =
     Inr \<lparr>am_kappa = 3 / 2, am_Zmid = 1 / 2, am_Zind = 2, am_R_upper = 7 / 2,
          am_theta = [3 * pi / 2, 0, pi / 2, pi], am_thetaR = [3 * pi / 2, 0, pi / 3, pi]\<rparr>
   \<and> R_upper_from_midplane example_R example_Z = 3
   \<and> (7 / 2 :: real) \<noteq> 3"
  by (simp add: example_branch_angles [unfolded example_R_def example_Z_def]
      R_upper_from_midplane_def example_R_def example_Z_def np_argmax_def)

text \<open>
  Claim C7, as the code has it. \<^verbatim>\<open>np.isclose\<close> adds its relative tolerance, \<open>1e-5\<close>
  times \<open>|1|\<close>, to the absolute one. The normalised height is replaced by exactly 1 or -1
  precisely when it lies within \<open>1e-8 + 1e-5\<close> of that value, the normalised radius
  precisely when it lies within \<open>1e-4 + 1e-5\<close> of it; every other value is kept. The two
  absolute tolerances differ.
\<close>

theorem clamp_tolerances:
  "normalised_height self kap Zmid Zc =
     map (\<lambda>z. let v = (z - Zmid) / (kap * r_minor self)
              in if \<bar>v - 1\<bar> \<le> 1 / 10 ^ 8 + 1 / 10 ^ 5 then 1
                 else if \<bar>v + 1\<bar> \<le> 1 / 10 ^ 8 + 1 / 10 ^ 5 then - 1 else v) Zc
   \<and> normalised_radius self Rc =
     map (\<lambda>r. let v = (r - Rmaj self * a_minor self) / r_minor self
              in if \<bar>v - 1\<bar> \<le> 1 / 10 ^ 4 + 1 / 10 ^ 5 then 1
                 else if \<bar>v + 1\<bar> \<le> 1 / 10 ^ 4 + 1 / 10 ^ 5 then - 1 else v) Rc"
  by (simp add: normalised_height_def normalised_radius_def np_isclose_def isclose_rtol_def
      isclose_atol_def Let_def)

theorem clamp_tolerances_witness:
  "normalised_height example_self 1 0 [- 1, 1, 999999 / 1000000, 9999 / 10000]
     = [- 1, 1, 1, 9999 / 10000]
   \<and> normalised_radius example_self [2, 4, 3999999 / 1000000, 39999 / 10000, 7 / 2]
     = [- 1, 1, 1, 1, 1 / 2]"
  using clamp_tolerances [of example_self 1 0 "[- 1, 1, 999999 / 1000000, 9999 / 10000]"
      "[2, 4, 3999999 / 1000000, 39999 / 10000, 7 / 2]"]
  by (simp add: example_self_def)

text \<open>
  Claim C7, as the specification states it, fails. For \<open>R = [4, 3, 3]\<close>,
  \<open>Z = [-1, 1, 0.999999]\<close> and \<open>r_minor = 1\<close> the method finds \<open>kappa = 1\<close> and \<open>Z_mid = 0\<close>; the third normalised
  height, \<open>0.999999\<close>, is \<open>1e-6\<close> away from 1, which is more than \<open>1e-8\<close>, and it is
  replaced by 1 all the same: the third \<open>theta\<close> is \<open>pi - arcsin 1 = pi / 2\<close>.
\<close>

theorem height_tolerance_counterexample:
  "angle_mapping example_self [4, 3, 3] [- 1, 1, 999999 / 1000000] =
     Inr \<lparr>am_kappa = 1, am_Zmid = 0, am_Zind = 0, am_R_upper = 4,
          am_theta = [- (pi / 2), pi / 2, pi / 2], am_thetaR = [0, pi / 2, pi / 2]\<rparr>
   \<and> normalised_height example_self 1 0 [- 1, 1, 999999 / 1000000] = [- 1, 1, 1]
   \<and> \<not> \<bar>(999999 / 1000000 - 0) / (1 * r_minor example_self) - 1\<bar> \<le> 1 / 10 ^ 8"
  by (simp add: angle_mapping_defs example_self_def)

subsection \<open>The moments\<close>

lemma length_n_arr: "length n_arr = n_moments"
  by (simp add: n_arr_def)


lemma n_arr_eq: "n_arr = [0, 1, 2, 3]"
  by (simp add: n_arr_def n_moments_def eval_nat_numeral upt_rec)

lemma harmonic_sum_Inr:
  assumes "length c = n_moments" and "length s = n_moments"
  shows "harmonic_sum f c s th = Inr (rows_sum f c s (np_outer th n_arr))"
  using assms by (simp add: harmonic_sum_def broadcast_to_def)

lemma harmonic_moments_length:
  assumes "harmonic_moments simpson th thR = (c, s)"
  shows "length c = n_moments \<and> length s = n_moments"
  using assms by (auto simp: harmonic_moments_def Let_def np_outer_def length_n_arr)



text \<open>Once the angle mapping has returned, lines 204 to 221 raise nothing.\<close>

lemma shape_moments_Inr:
  assumes "angle_mapping self Rc Zc = Inr a"
    and "harmonic_moments simpson (am_theta a) (am_thetaR a) = (c, s)"
  shows "\<exists>self1. shape_moments simpson self Rc Zc = Inr self1
           \<and> cn self1 = c \<and> sn self1 = s \<and> kappa self1 = am_kappa a
           \<and> theta self1 = am_theta a \<and> theta_eq self1 = am_theta a"
proof -
  have l: "length c = n_moments" "length s = n_moments"
    using harmonic_moments_length [OF assms(2)] by simp_all
  show ?thesis
    using assms l
    by (simp add: shape_moments_def Let_def get_thetaR_def get_dthetaR_dtheta_def
        get_flux_surface_def harmonic_sum_Inr)
qed



subsection \<open>The fit\<close>

lemma store_fit_success:
  assumes "success fits" and "length (fit_x fits) = 3 + 2 * n_moments"
  shows "store_fit self1 fits verbose =
           Inr (self1\<lparr>shift := fit_x fits ! 0, s_kappa := fit_x fits ! 1, dZ0dr := fit_x fits ! 2,
                      dcndr := take n_moments (drop 3 (fit_x fits)),
                      dsndr := (drop (n_moments + 3) (fit_x fits))[0 := 0],
                      dthetaR_dr :=
                        rows_sum (\<lambda>ck sk nk v. ck * cos v + sk * sin v)
                          (take n_moments (drop 3 (fit_x fits)))
                          ((drop (n_moments + 3) (fit_x fits))[0 := 0])
                          (np_outer (theta self1) n_arr)\<rparr>,
                (if verbose then [Printed (cost fits)] else [])
                  @ (if 1 / 10 < cost fits then [Warned (cost fits)] else []))"
  using assms
  by (simp add: store_fit_def Let_def get_dthetaR_dr_def harmonic_sum_Inr n_moments_def)

lemma store_fit_failure:
  assumes "\<not> success fits"
  shows "store_fit self1 fits verbose =
           Inl (Exception (''Least squares fitting in MXH::from_global_eq failed with message : ''
                             @ message fits))"
  using assms by (simp add: store_fit_def)

lemma drop_1_update_0: "drop 1 (xs[0 := v]) = drop 1 xs"
  by (cases xs) simp_all

lemma example_shape_moments:
  "\<exists>self1. shape_moments example_quadrature example_self example_R example_Z = Inr self1"
proof -
  obtain c s where
    hm: "harmonic_moments example_quadrature [- (pi / 2), 0, pi / 2, pi] [- (pi / 2), 0, pi / 3, pi]
           = (c, s)"
    by (cases "harmonic_moments example_quadrature [- (pi / 2), 0, pi / 2, pi]
                 [- (pi / 2), 0, pi / 3, pi]") auto
  show ?thesis
    using shape_moments_Inr [OF example_angle_mapping, of example_quadrature c s] hm by auto
qed

text \<open>
  Claim C3. Whenever the solver reports success (and returns, as it does, as many
  entries as the eleven it was started from), the method returns, and the stored
  \<open>dsndr\<close> has \<open>dsndr[0] = 0\<close> whatever the solver returned at that place; its other
  entries are the solver's.
\<close>

theorem dsndr_0_forced_to_zero:
  assumes "shape_moments simpson self Rc Zc = Inr self1"
    and "least_squares (minimise_b_poloidal self1) ([shift0, 0, 0] @ replicate (n_moments * 2) 0)
           = Inr fits"
    and "success fits" and "length (fit_x fits) = 3 + 2 * n_moments"
  shows "\<exists>self' out.
           set_shape_coefficients simpson least_squares minimise_b_poloidal self Rc Zc bp verbose
             shift0 = Inr (self', out)
           \<and> length (dsndr self') = n_moments \<and> dsndr self' ! 0 = 0
           \<and> drop 1 (dsndr self') = drop (n_moments + 4) (fit_x fits)"
proof -
  note sf = store_fit_success [OF assms(3,4), of self1 verbose]
  have "drop 1 ((drop (n_moments + 3) (fit_x fits))[0 := 0]) = drop (n_moments + 4) (fit_x fits)"
    by (simp only: drop_1_update_0 drop_drop) (simp add: add.commute)
  then show ?thesis
    using assms sf by (simp add: set_shape_coefficients_def Let_def n_moments_def)
qed

theorem dsndr_0_forced_to_zero_witness:
  "\<exists>self' out.
     set_shape_coefficients example_quadrature (example_least_squares True (1 / 2))
       example_residual example_self example_R example_Z [] False 0 = Inr (self', out)
     \<and> fit_x (example_fit True (1 / 2)) ! 7 = 8
     \<and> dsndr self' = [0, 9, 10, 11]"
proof -
  obtain self1 where
    sm: "shape_moments example_quadrature example_self example_R example_Z = Inr self1"
    using example_shape_moments by blast
  have "\<exists>self' out.
           set_shape_coefficients example_quadrature (example_least_squares True (1 / 2))
             example_residual example_self example_R example_Z [] False 0 = Inr (self', out)
           \<and> length (dsndr self') = n_moments \<and> dsndr self' ! 0 = 0
           \<and> drop 1 (dsndr self') = drop (n_moments + 4) (fit_x (example_fit True (1 / 2)))"
    by (rule dsndr_0_forced_to_zero [OF sm])
      (simp_all add: example_least_squares_def example_fit_def n_moments_def)
  then obtain self' out where
    r: "set_shape_coefficients example_quadrature (example_least_squares True (1 / 2))
             example_residual example_self example_R example_Z [] False 0 = Inr (self', out)"
    and l: "length (dsndr self') = n_moments" and z: "dsndr self' ! 0 = 0"
    and d: "drop 1 (dsndr self') = drop (n_moments + 4) (fit_x (example_fit True (1 / 2)))"
    by blast
  have "dsndr self' = [0, 9, 10, 11]"
    using l z d by (cases "dsndr self'") (simp_all add: n_moments_def example_fit_def)
  moreover have "fit_x (example_fit True (1 / 2)) ! 7 = 8"
    by (simp add: example_fit_def)
  ultimately show ?thesis using r by blast
qed

text \<open>
  Claim C4, as the code has it. Whenever the solver reports failure, the method raises
  an exception whose text is a fixed prefix followed by the solver's message; nothing
  catches it and the solver is not called again. The text holds the message alone: the
  residual cost is not in it.
\<close>

theorem failed_fit_raises_with_message:
  assumes "shape_moments simpson self Rc Zc = Inr self1"
    and "least_squares (minimise_b_poloidal self1) ([shift0, 0, 0] @ replicate (n_moments * 2) 0)
           = Inr fits"
    and "\<not> success fits"
  shows "set_shape_coefficients simpson least_squares minimise_b_poloidal self Rc Zc bp verbose
           shift0
         = Inl (Exception (''Least squares fitting in MXH::from_global_eq failed with message : ''
                             @ message fits))"
  using assms store_fit_failure [OF assms(3), of self1 verbose]
  by (simp add: set_shape_coefficients_def Let_def)

theorem failed_fit_raises_with_message_witness:
  "set_shape_coefficients example_quadrature (example_least_squares False (1 / 2))
       example_residual example_self example_R example_Z [] False 0
     = Inl (Exception ''Least squares fitting in MXH::from_global_eq failed with message : xtol'')"
proof -
  obtain self1 where
    sm: "shape_moments example_quadrature example_self example_R example_Z = Inr self1"
    using example_shape_moments by blast
  have "set_shape_coefficients example_quadrature (example_least_squares False (1 / 2))
       example_residual example_self example_R example_Z [] False 0
     = Inl (Exception (''Least squares fitting in MXH::from_global_eq failed with message : ''
                             @ message (example_fit False (1 / 2))))"
    by (rule failed_fit_raises_with_message [OF sm])
      (simp_all add: example_least_squares_def example_fit_def)
  then show ?thesis by (simp add: example_fit_def)
qed

text \<open>
  Claim C4, as the specification states it, fails. Two failed fits with the same message
  and the residual costs \<open>1/2\<close> and \<open>7\<close> raise one and the same exception, so the
  exception does not carry the cost.
\<close>

theorem error_carries_cost_counterexample:
  "set_shape_coefficients example_quadrature (example_least_squares False (1 / 2))
       example_residual example_self example_R example_Z [] False 0
     = set_shape_coefficients example_quadrature (example_least_squares False 7)
       example_residual example_self example_R example_Z [] False 0
   \<and> cost (example_fit False (1 / 2)) \<noteq> cost (example_fit False 7)
   \<and> set_shape_coefficients example_quadrature (example_least_squares False 7)
       example_residual example_self example_R example_Z [] False 0
     = Inl (Exception ''Least squares fitting in MXH::from_global_eq failed with message : xtol'')"
proof -
  obtain self1 where
    sm: "shape_moments example_quadrature example_self example_R example_Z = Inr self1"
    using example_shape_moments by blast
  show ?thesis
    using sm
    by (simp add: set_shape_coefficients_def store_fit_def example_least_squares_def
        example_fit_def)
qed

text \<open>
  Claim C8. When the solver reports success and the residual cost is above \<open>0.1\<close>, the
  method warns (after the line it prints when verbose) and returns: no exception is
  raised, and \<open>shift\<close>, \<open>s_kappa\<close>, \<open>dZ0dr\<close>, \<open>dcndr\<close> and \<open>dsndr\<close> are stored from the
  solver's result.
\<close>

theorem poor_fit_warns_and_stores:
  assumes "shape_moments simpson self Rc Zc = Inr self1"
    and "least_squares (minimise_b_poloidal self1) ([shift0, 0, 0] @ replicate (n_moments * 2) 0)
           = Inr fits"
    and "success fits" and "length (fit_x fits) = 3 + 2 * n_moments"
    and "1 / 10 < cost fits"
  shows "\<exists>self' out.
           set_shape_coefficients simpson least_squares minimise_b_poloidal self Rc Zc bp verbose
             shift0 = Inr (self', out)
           \<and> out = (if verbose then [Printed (cost fits)] else []) @ [Warned (cost fits)]
           \<and> shift self' = fit_x fits ! 0 \<and> s_kappa self' = fit_x fits ! 1
           \<and> dZ0dr self' = fit_x fits ! 2
           \<and> dcndr self' = take n_moments (drop 3 (fit_x fits))
           \<and> dsndr self' = (drop (n_moments + 3) (fit_x fits))[0 := 0]"
  using assms store_fit_success [OF assms(3,4), of self1 verbose]
  by (simp add: set_shape_coefficients_def Let_def)

theorem poor_fit_warns_and_stores_witness:
  "\<exists>self'.
     set_shape_coefficients example_quadrature (example_least_squares True (1 / 2))
       example_residual example_self example_R example_Z [] False 0
       = Inr (self', [Warned (1 / 2)])
     \<and> shift self' = 1 \<and> s_kappa self' = 2 \<and> dZ0dr self' = 3
     \<and> dcndr self' = [4, 5, 6, 7] \<and> dsndr self' = [0, 9, 10, 11]"
proof -
  obtain self1 where
    sm: "shape_moments example_quadrature example_self example_R example_Z = Inr self1"
    using example_shape_moments by blast
  have "\<exists>self' out.
           set_shape_coefficients example_quadrature (example_least_squares True (1 / 2))
             example_residual example_self example_R example_Z [] False 0 = Inr (self', out)
           \<and> out = (if False then [Printed (cost (example_fit True (1 / 2)))] else [])
                     @ [Warned (cost (example_fit True (1 / 2)))]
           \<and> shift self' = fit_x (example_fit True (1 / 2)) ! 0
           \<and> s_kappa self' = fit_x (example_fit True (1 / 2)) ! 1
           \<and> dZ0dr self' = fit_x (example_fit True (1 / 2)) ! 2
           \<and> dcndr self' = take n_moments (drop 3 (fit_x (example_fit True (1 / 2))))
           \<and> dsndr self' = (drop (n_moments + 3) (fit_x (example_fit True (1 / 2))))[0 := 0]"
    by (rule poor_fit_warns_and_stores [OF sm])
      (simp_all add: example_least_squares_def example_fit_def n_moments_def)
  then show ?thesis
    by (auto simp: example_fit_def n_moments_def)
qed

subsection \<open>The derivative engine\<close>

lemma length_4_cases:
  assumes "length xs = n_moments"
  obtains x0 x1 x2 x3 where "xs = [x0, x1, x2, x3]"
  using assms by (auto simp: n_moments_def eval_nat_numeral length_Suc_conv)

lemma thetaR_series_4:
  "thetaR_series [c0, c1, c2, c3] [s0, s1, s2, s3] t =
     t + (c0 + (c1 * cos t + s1 * sin t) + (c2 * cos (2 * t) + s2 * sin (2 * t))
            + (c3 * cos (3 * t) + s3 * sin (3 * t)))"
  by (simp add: thetaR_series_def n_moments_def eval_nat_numeral)

lemma map_zip_same: "map (\<lambda>(t, h). g t h) (zip th (map f th)) = map (\<lambda>t. g t (f t)) th"
  by (induction th) simp_all

lemma harmonic_sum_4:
  "harmonic_sum f [c0, c1, c2, c3] [s0, s1, s2, s3] th =
     Inr (map (\<lambda>t. f c0 s0 0 (t * 0) + (f c1 s1 1 (t * 1) + (f c2 s2 2 (t * 2)
                  + (f c3 s3 3 (t * 3) + 0)))) th)"
  by (simp add: harmonic_sum_Inr n_moments_def rows_sum_def np_outer_def n_arr_eq o_def)

lemma harmonic_series_4:
  "harmonic_series [c0, c1, c2, c3] [s0, s1, s2, s3] t =
     c0 + (c1 * cos t + s1 * sin t) + (c2 * cos (2 * t) + s2 * sin (2 * t))
        + (c3 * cos (3 * t) + s3 * sin (3 * t))"
  by (simp add: harmonic_series_def n_moments_def eval_nat_numeral)

lemma harmonic_series_d1_4:
  "harmonic_series_d1 [c0, c1, c2, c3] [s0, s1, s2, s3] t =
     (- (c1 * sin t) + s1 * cos t) + (- (2 * c2 * sin (2 * t)) + 2 * s2 * cos (2 * t))
        + (- (3 * c3 * sin (3 * t)) + 3 * s3 * cos (3 * t))"
  by (simp add: harmonic_series_d1_def n_moments_def eval_nat_numeral)

lemma harmonic_series_d2_4:
  "harmonic_series_d2 [c0, c1, c2, c3] [s0, s1, s2, s3] t =
     - (c1 * cos t + s1 * sin t) - 4 * (c2 * cos (2 * t) + s2 * sin (2 * t))
        - 9 * (c3 * cos (3 * t) + s3 * sin (3 * t))"
  by (simp add: harmonic_series_d2_def n_moments_def eval_nat_numeral)

text \<open>
  Claim C6. For every \<open>theta\<close> array and every stored set of \<open>n_moments\<close> coefficients,
  \<^verbatim>\<open>get_thetaR\<close> returns \<open>theta + sum_k (cn[k] * cos(k * theta) + sn[k] * sin(k * theta))\<close>
  at each \<open>theta\<close>, and \<^verbatim>\<open>get_d2Rdtheta2\<close> returns
  \<open>- r * sin(thetaR) * d2thetaR/dtheta2 - r * cos(thetaR) * (dthetaR/dtheta)^2\<close>, \<open>r\<close>
  being \<open>rho\<close> or \<open>r_minor\<close> as the flag says. Every derivative is the harmonic sum
  differentiated term by term: \<^verbatim>\<open>get_dthetaR_dtheta\<close> returns 1 plus the first
  term-by-term derivative of the sum in \<open>cn\<close>, \<open>sn\<close>, \<^verbatim>\<open>get_d2thetaR_dtheta2\<close> the
  second, \<^verbatim>\<open>get_dthetaR_dr\<close> the sum in the radial derivatives \<open>dcndr\<close>, \<open>dsndr\<close> of the
  coefficients, and \<^verbatim>\<open>get_d2thetaR_drdtheta\<close> the first term-by-term derivative of that
  sum. Those series are the derivatives in \<open>theta\<close> of the series they come from, and
  \<^verbatim>\<open>get_dRdtheta\<close>, \<^verbatim>\<open>get_d2Rdtheta2\<close>, \<^verbatim>\<open>get_d2Rdrdtheta\<close>, \<^verbatim>\<open>get_dZdtheta\<close>,
  \<^verbatim>\<open>get_d2Zdtheta2\<close> and \<^verbatim>\<open>get_d2Zdrdtheta\<close> are the derivatives in \<open>theta\<close> of
  \<open>R = Rmaj + r * cos(thetaR)\<close>, of \<open>dR/dtheta\<close>, of \<open>dR/dr\<close>, of
  \<open>Z = Z0 + kappa * r * sin(theta)\<close>, of \<open>dZ/dtheta\<close> and of \<open>dZ/dr\<close>. No difference
  quotient occurs.
\<close>

theorem thetaR_closed_form_derivatives:
  assumes "length (cn self) = n_moments" and "length (sn self) = n_moments"
    and "length dc = n_moments" and "length ds = n_moments"
  shows "get_thetaR self th = Inr (map (thetaR_series (cn self) (sn self)) th)
     \<and> get_d2Rdtheta2 self tR d d2 normalised =
         - (if normalised then rho self else r_minor self) * sin tR * d2
         - (if normalised then rho self else r_minor self) * cos tR * d\<^sup>2
     \<and> get_dthetaR_dtheta self th
         = Inr (map (\<lambda>t. 1 + harmonic_series_d1 (cn self) (sn self) t) th)
     \<and> get_d2thetaR_dtheta2 self th = Inr (map (harmonic_series_d2 (cn self) (sn self)) th)
     \<and> get_dthetaR_dr self th dc ds = Inr (map (harmonic_series dc ds) th)
     \<and> get_d2thetaR_drdtheta self th dc ds = Inr (map (harmonic_series_d1 dc ds) th)
     \<and> (\<forall>t. thetaR_series (cn self) (sn self) t = t + harmonic_series (cn self) (sn self) t)
     \<and> (\<forall>t. (thetaR_series (cn self) (sn self)
            has_real_derivative 1 + harmonic_series_d1 (cn self) (sn self) t) (at t))
     \<and> (\<forall>t. ((\<lambda>u. 1 + harmonic_series_d1 (cn self) (sn self) u)
            has_real_derivative harmonic_series_d2 (cn self) (sn self) t) (at t))
     \<and> (\<forall>t. (harmonic_series dc ds has_real_derivative harmonic_series_d1 dc ds t) (at t))
     \<and> (\<forall>t. ((\<lambda>u. Rmaj self + (if normalised then rho self else r_minor self)
                       * cos (thetaR_series (cn self) (sn self) u))
            has_real_derivative
              get_dRdtheta self (thetaR_series (cn self) (sn self) t)
                (1 + harmonic_series_d1 (cn self) (sn self) t) normalised) (at t))
     \<and> (\<forall>t. ((\<lambda>u. get_dRdtheta self (thetaR_series (cn self) (sn self) u)
                   (1 + harmonic_series_d1 (cn self) (sn self) u) normalised)
            has_real_derivative
              get_d2Rdtheta2 self (thetaR_series (cn self) (sn self) t)
                (1 + harmonic_series_d1 (cn self) (sn self) t)
                (harmonic_series_d2 (cn self) (sn self) t) normalised) (at t))
     \<and> (\<forall>t. ((\<lambda>u. get_dRdr self sh (thetaR_series (cn self) (sn self) u)
                   (harmonic_series dc ds u))
            has_real_derivative
              get_d2Rdrdtheta self (thetaR_series (cn self) (sn self) t) (harmonic_series dc ds t)
                (1 + harmonic_series_d1 (cn self) (sn self) t) (harmonic_series_d1 dc ds t))
           (at t))
     \<and> (\<forall>t. ((\<lambda>u. Z0 self + kappa self * (if normalised then rho self else r_minor self) * sin u)
            has_real_derivative get_dZdtheta self t normalised) (at t))
     \<and> (\<forall>t. ((\<lambda>u. get_dZdtheta self u normalised)
            has_real_derivative get_d2Zdtheta2 self t normalised) (at t))
     \<and> (\<forall>t. ((\<lambda>u. get_dZdr self u dz sk) has_real_derivative get_d2Zdrdtheta self t sk) (at t))"
proof -
  obtain c0 c1 c2 c3 where c: "cn self = [c0, c1, c2, c3]"
    using assms(1) by (rule length_4_cases)
  obtain s0 s1 s2 s3 where s: "sn self = [s0, s1, s2, s3]"
    using assms(2) by (rule length_4_cases)
  obtain e0 e1 e2 e3 where dc: "dc = [e0, e1, e2, e3]"
    using assms(3) by (rule length_4_cases)
  obtain f0 f1 f2 f3 where ds: "ds = [f0, f1, f2, f3]"
    using assms(4) by (rule length_4_cases)
  define r where "r = (if normalised then rho self else r_minor self)"
  define T where "T = thetaR_series (cn self) (sn self)"
  define D1 where "D1 = (\<lambda>t. 1 + harmonic_series_d1 (cn self) (sn self) t)"
  define D2 where "D2 = harmonic_series_d2 (cn self) (sn self)"
  define E1 where "E1 = harmonic_series dc ds"
  define E2 where "E2 = harmonic_series_d1 dc ds"
  have T: "T = (\<lambda>t. t + (c0 + (c1 * cos t + s1 * sin t) + (c2 * cos (2 * t) + s2 * sin (2 * t))
            + (c3 * cos (3 * t) + s3 * sin (3 * t))))"
    unfolding T_def c s by (rule ext) (rule thetaR_series_4)
  have D1: "D1 = (\<lambda>t. 1 + ((- (c1 * sin t) + s1 * cos t)
      + (- (2 * c2 * sin (2 * t)) + 2 * s2 * cos (2 * t))
      + (- (3 * c3 * sin (3 * t)) + 3 * s3 * cos (3 * t))))"
    unfolding D1_def c s by (rule ext) (simp only: harmonic_series_d1_4)
  have D2: "D2 = (\<lambda>t. - (c1 * cos t + s1 * sin t) - 4 * (c2 * cos (2 * t) + s2 * sin (2 * t))
        - 9 * (c3 * cos (3 * t) + s3 * sin (3 * t)))"
    unfolding D2_def c s by (rule ext) (rule harmonic_series_d2_4)
  have E1: "E1 = (\<lambda>t. e0 + (e1 * cos t + f1 * sin t) + (e2 * cos (2 * t) + f2 * sin (2 * t))
        + (e3 * cos (3 * t) + f3 * sin (3 * t)))"
    unfolding E1_def dc ds by (rule ext) (rule harmonic_series_4)
  have E2: "E2 = (\<lambda>t. (- (e1 * sin t) + f1 * cos t)
      + (- (2 * e2 * sin (2 * t)) + 2 * f2 * cos (2 * t))
      + (- (3 * e3 * sin (3 * t)) + 3 * f3 * cos (3 * t)))"
    unfolding E2_def dc ds by (rule ext) (rule harmonic_series_d1_4)
  have TE: "T t = t + harmonic_series (cn self) (sn self) t" for t
    by (simp add: T_def thetaR_series_def harmonic_series_def)
  have g0: "get_thetaR self th = Inr (map T th)"
    by (simp add: get_thetaR_def c s harmonic_sum_4 map_zip_same T mult.commute)
  have g1: "get_dthetaR_dtheta self th = Inr (map D1 th)"
    by (simp add: get_dthetaR_dtheta_def c s harmonic_sum_4 D1 mult.commute)
  have g2: "get_d2thetaR_dtheta2 self th = Inr (map D2 th)"
    by (simp add: get_d2thetaR_dtheta2_def c s harmonic_sum_4 D2 mult.commute)
  have g3: "get_dthetaR_dr self th dc ds = Inr (map E1 th)"
    by (simp add: get_dthetaR_dr_def dc ds harmonic_sum_4 E1 mult.commute)
  have g4: "get_d2thetaR_drdtheta self th dc ds = Inr (map E2 th)"
    by (simp add: get_d2thetaR_drdtheta_def dc ds harmonic_sum_4 E2 mult.commute)
  have dT: "(T has_real_derivative D1 t) (at t)" for t
    unfolding T D1 by (auto intro!: derivative_eq_intros simp: algebra_simps)
  have dD1: "(D1 has_real_derivative D2 t) (at t)" for t
    unfolding D1 D2 by (auto intro!: derivative_eq_intros simp: algebra_simps)
  have dE1: "(E1 has_real_derivative E2 t) (at t)" for t
    unfolding E1 E2 by (auto intro!: derivative_eq_intros simp: algebra_simps)
  have dR: "((\<lambda>u. Rmaj self + r * cos (T u)) has_real_derivative
               get_dRdtheta self (T t) (D1 t) normalised) (at t)" for t
    unfolding get_dRdtheta_def Let_def r_def [symmetric]
    by (auto intro!: derivative_eq_intros dT simp: algebra_simps)
  have d2R: "((\<lambda>u. get_dRdtheta self (T u) (D1 u) normalised) has_real_derivative
               get_d2Rdtheta2 self (T t) (D1 t) (D2 t) normalised) (at t)" for t
    unfolding get_dRdtheta_def get_d2Rdtheta2_def Let_def r_def [symmetric]
    by (auto intro!: derivative_eq_intros dT dD1 simp: algebra_simps power2_eq_square)
  have dRr: "((\<lambda>u. get_dRdr self sh (T u) (E1 u)) has_real_derivative
               get_d2Rdrdtheta self (T t) (E1 t) (D1 t) (E2 t)) (at t)" for t
    unfolding get_dRdr_def get_d2Rdrdtheta_def
    by (auto intro!: derivative_eq_intros dT dE1 simp: algebra_simps)
  have id2: "get_d2Rdtheta2 self tR d d2 normalised = - r * sin tR * d2 - r * cos tR * d\<^sup>2"
    by (simp add: get_d2Rdtheta2_def r_def Let_def)
  have dZ: "((\<lambda>u. Z0 self + kappa self * r * sin u) has_real_derivative
               get_dZdtheta self t normalised) (at t)" for t
    unfolding get_dZdtheta_def Let_def r_def [symmetric]
    by (auto intro!: derivative_eq_intros simp: algebra_simps)
  have d2Z: "((\<lambda>u. get_dZdtheta self u normalised) has_real_derivative
               get_d2Zdtheta2 self t normalised) (at t)" for t
    unfolding get_dZdtheta_def get_d2Zdtheta2_def Let_def r_def [symmetric]
    by (auto intro!: derivative_eq_intros simp: algebra_simps)
  have dZr: "((\<lambda>u. get_dZdr self u dz sk) has_real_derivative get_d2Zdrdtheta self t sk) (at t)"
    for t
    unfolding get_dZdr_def get_d2Zdrdtheta_def
    by (auto intro!: derivative_eq_intros simp: algebra_simps)
  show ?thesis
    using g0 id2 g1 g2 g3 g4 TE dT dD1 dE1 dR d2R dRr dZ d2Z dZr
    unfolding T_def r_def D1_def D2_def E1_def E2_def
    by (intro conjI allI)
qed

theorem thetaR_closed_form_derivatives_witness:
  "get_thetaR (example_self\<lparr>sn := [0, 1 / 2, 0, 0]\<rparr>) [0, pi / 2] = Inr [0, pi / 2 + 1 / 2]
   \<and> get_d2Rdtheta2 example_self (pi / 2) 3 5 True = - 5
   \<and> get_dthetaR_dr example_self [0, pi / 2] [0, 1, 0, 0] [0, 0, 0, 0] = Inr [1, 0]
   \<and> get_d2thetaR_drdtheta example_self [0, pi / 2] [0, 1, 0, 0] [0, 0, 0, 0] = Inr [0, - 1]"
  using thetaR_closed_form_derivatives
      [of "example_self\<lparr>sn := [0, 1 / 2, 0, 0]\<rparr>" "[0, 0, 0, 0]" "[0, 0, 0, 0]" "[0, pi / 2]"]
    thetaR_closed_form_derivatives
      [of example_self "[0, 1, 0, 0]" "[0, 0, 0, 0]" "[0, pi / 2]" "pi / 2" 3 5 True]
  by (simp add: example_self_def n_moments_def thetaR_series_4 harmonic_series_4
      harmonic_series_d1_4)

text \<open>
  Claim C9. A call of \<^verbatim>\<open>get_RZ_derivatives\<close> with a parameter vector leaves the object
  as it was, whatever \<open>theta\<close> and the vector are and whether or not the call raises:
  \<open>shift\<close>, \<open>s_kappa\<close>, \<open>dZ0dr\<close>, \<open>cn\<close>, \<open>sn\<close>, \<open>dcndr\<close>, \<open>dsndr\<close>, \<open>kappa\<close> and every
  other attribute are unchanged. The stored \<open>shift\<close>, \<open>s_kappa\<close>, \<open>dZ0dr\<close>, \<open>dcndr\<close>
  and \<open>dsndr\<close> are not read either: the result is the same whatever they hold.
\<close>

theorem derivatives_leave_object_unchanged:
  "snd (get_RZ_derivatives self th (Some params) normalised) = self
   \<and> fst (get_RZ_derivatives
            (self\<lparr>shift := sh, s_kappa := sk, dZ0dr := dz, dcndr := dc, dsndr := ds\<rparr>)
            th (Some params) normalised)
     = fst (get_RZ_derivatives self th (Some params) normalised)"
  by (simp add: get_RZ_derivatives_def shear_parameters_def get_thetaR_def get_dthetaR_dr_def
      get_dthetaR_dtheta_def get_dZdtheta_def get_dZdr_def get_dRdtheta_def get_dRdr_def Let_def
      split: sum.splits prod.splits)

theorem derivatives_leave_object_unchanged_witness:
  "snd (get_RZ_derivatives example_self [0, pi / 2] (Some [1, 2, 3, 4, 5, 6, 7, 8, 9, 10, 11]) False)
     = example_self
   \<and> snd (get_RZ_derivatives example_self [0, pi / 2] (Some [1, 2]) False) = example_self
   \<and> fst (get_RZ_derivatives example_self [0, pi / 2] (Some [1, 2]) False) = Inl IndexError"
  using derivatives_leave_object_unchanged
      [of example_self "[0, pi / 2]" "[1, 2, 3, 4, 5, 6, 7, 8, 9, 10, 11]" False]
    derivatives_leave_object_unchanged [of example_self "[0, pi / 2]" "[1, 2]" False]
  by (simp add: get_RZ_derivatives_def shear_parameters_def)

text \<open>
  Claim C10. Of the four arrays that \<^verbatim>\<open>get_RZ_derivatives\<close> returns, \<open>dRdtheta\<close> and
  \<open>dZdtheta\<close> are scaled by \<open>rho\<close> when \<open>normalised\<close> is true and by \<open>r_minor\<close> when it
  is false, while \<open>dRdr\<close> and \<open>dZdr\<close> are the same for both values of the flag:
  \<open>dRdr\<close> is computed with \<open>rho\<close>, \<open>dZdr\<close> with \<open>kappa\<close> alone, and \<open>r_minor\<close> occurs in
  neither.
\<close>

theorem flag_reaches_theta_derivatives_only:
  assumes "shear_parameters self params = Inr (sh, sk, dz, dc, ds)"
    and "get_thetaR self th = Inr thR"
    and "get_dthetaR_dr self th dc ds = Inr dthR_dr"
    and "get_dthetaR_dtheta self th = Inr dthR_dth"
  shows "fst (get_RZ_derivatives self th params normalised) =
     Inr (map (\<lambda>(tR, d). - (if normalised then rho self else r_minor self) * sin tR * d)
            (zip thR dthR_dth),
          map (\<lambda>(tR, d). sh + cos tR - rho self * sin tR * d) (zip thR dthR_dr),
          map (\<lambda>t. kappa self * (if normalised then rho self else r_minor self) * cos t) th,
          map (\<lambda>t. dz + kappa self * sin t * (1 + sk)) th)"
  using assms
  by (simp add: get_RZ_derivatives_def get_dZdtheta_def get_dZdr_def get_dRdtheta_def
      get_dRdr_def Let_def case_prod_unfold)

theorem flag_reaches_theta_derivatives_only_witness:
  "fst (get_RZ_derivatives (example_self\<lparr>r_minor := 2\<rparr>) [0, pi / 2] None False)
     = Inr ([0, - 2], [1, 0], [2, 0], [0, 1])
   \<and> fst (get_RZ_derivatives (example_self\<lparr>r_minor := 2\<rparr>) [0, pi / 2] None True)
     = Inr ([0, - 1], [1, 0], [1, 0], [0, 1])"
proof -
  have h1: "shear_parameters (example_self\<lparr>r_minor := 2\<rparr>) None
              = Inr (0, 0, 0, [0, 0, 0, 0], [0, 0, 0, 0])"
    by (simp add: shear_parameters_def example_self_def)
  have h2: "get_thetaR (example_self\<lparr>r_minor := 2\<rparr>) [0, pi / 2] = Inr [0, pi / 2]"
    by (simp add: get_thetaR_def harmonic_sum_4 example_self_def)
  have h3: "get_dthetaR_dr (example_self\<lparr>r_minor := 2\<rparr>) [0, pi / 2] [0, 0, 0, 0] [0, 0, 0, 0]
              = Inr [0, 0]"
    by (simp add: get_dthetaR_dr_def harmonic_sum_4)
  have h4: "get_dthetaR_dtheta (example_self\<lparr>r_minor := 2\<rparr>) [0, pi / 2] = Inr [1, 1]"
    by (simp add: get_dthetaR_dtheta_def harmonic_sum_4 example_self_def)
  show ?thesis
    using flag_reaches_theta_derivatives_only [OF h1 h2 h3 h4, of False]
      flag_reaches_theta_derivatives_only [OF h1 h2 h3 h4, of True]
    by (simp add: example_self_def)
qed

end
